theory Spec2Isabelle
  imports Complex_Main
begin

section \<open>The training script \<open>train.py\<close>\<close>

text \<open>
  The repository's only source file is \<open>train.py\<close>, whose function \<open>main(args)\<close>
  validates the command-line configuration, builds the model, prepares the output
  directories and the data generators, trains, saves and finally computes residual maps
  of validation images. The development below embeds \<open>main\<close> statement by statement:
  every \<open>raise\<close> is an error value, every read of a local variable that may be unbound is
  a check, and every call that acts on the outside world is an entry of a trace.
\<close>

subsection \<open>Exceptions and arguments\<close>

text \<open>A Python exception: the name of its class and its message.\<close>

datatype exn = Exn (exn_class: string) (exn_message: string)

text \<open>The namespace produced by the argument parser (\<open>args.directory\<close>, ...).\<close>

record args =
  arg_directory :: string
  arg_architecture :: string
  arg_nb_images :: int
  arg_batch :: int
  arg_loss :: string
  arg_color :: string
  arg_lr_find :: int
  arg_tag :: "string option"

subsection \<open>\<open>str.upper\<close>\<close>

text \<open>
  Command-line words are ASCII text; on ASCII, \<open>str.upper\<close> maps the letters \<open>a\<close> to
  \<open>z\<close> (codes 97 to 122) to \<open>A\<close> to \<open>Z\<close> (codes 65 to 90) and leaves every other
  character as it is.
\<close>

definition upper_char :: "char \<Rightarrow> char" where
  "upper_char c =
     (let n = (of_char c :: nat) in if 97 \<le> n \<and> n \<le> 122 then char_of (n - 32) else c)"

definition upper :: "string \<Rightarrow> string" where
  "upper s = map upper_char s"

subsection \<open>Runs: a trace of calls and a result\<close>

text \<open>
  Values handed to the libraries. A loss is either an attribute of one of the script's
  modules (\<open>loss_functions.ssim_loss\<close> is \<open>Module_attr ''loss_functions'' ''ssim_loss''\<close>)
  or a string literal, which Keras resolves to a built-in objective of that name.
\<close>

datatype objective = Module_attr string string | Str string

datatype model = Mvtec int | Mvtec_2 int | Resnet

text \<open>
  A tensor as numpy holds it: its shape and its entries in row-major order, the channel
  axis last. Entries are exact rationals; rounding of the machine floats is not modelled.
\<close>

record tensor =
  array_shape :: "nat list"
  array_data :: "rat list"

text \<open>
  An iterator returned by \<open>flow_from_directory\<close>, with the arguments the script passes
  and the settings of the \<open>ImageDataGenerator\<close> it was made from.
\<close>

record generator =
  augmenting :: bool
  rescale_by :: "rat option"
  preprocess_with :: "string option"
  from_directory :: string
  target_size :: "nat \<times> nat"
  gen_color_mode :: string
  gen_batch_size :: int
  subset :: string
  shuffle :: bool

text \<open>The dictionary written to \<open>setup.json\<close>.\<close>

record setup_json =
  setup_directory :: string
  setup_nb_training_images :: nat
  setup_nb_validation_images :: nat
  setup_rescale :: "rat option"
  setup_shape :: "nat \<times> nat"
  setup_preprocessing :: "string option"
  setup_architecture :: string
  setup_nb_training_images_aug :: int
  setup_epochs :: int
  setup_batch_size :: int
  setup_loss :: string
  setup_color_mode :: string
  setup_channels :: int
  setup_validation_split :: rat
  setup_tag :: "string option"

text \<open>
  The calls of \<open>main\<close> that act outside it, in the order of the source. Printing and
  the creation of figures and of callback objects (which the script builds and never
  passes on) are left out.
\<close>

datatype event =
    Build_model model
  | Makedirs string
  | Flow_from_directory generator
  | Compile model objective "objective list"
  | Get_learner model generator generator int
  | Lr_find
  | Lr_plot
  | Savefig string
  | Input_prompt string
  | Reset_weights
  | Fit_onecycle rat int
  | Save_model model string
  | Plot string
  | Json_dump string setup_json
  | Next_batch generator
  | Predict model tensor
  | Calculate_resmaps tensor tensor string
  | Rgb_to_grayscale tensor
  | Save_images string tensor "string list" string string

text \<open>
  A step of \<open>main\<close> takes the trace so far and returns the trace extended by what it
  did, with either the exception it raised (\<open>Inl\<close>) or its value (\<open>Inr\<close>).
\<close>

type_synonym 'a run = "event list \<Rightarrow> event list \<times> (exn + 'a)"

definition return :: "'a \<Rightarrow> 'a run" where
  "return x = (\<lambda>s. (s, Inr x))"

definition raise :: "exn \<Rightarrow> 'a run" where
  "raise e = (\<lambda>s. (s, Inl e))"

definition emit :: "event \<Rightarrow> unit run" where
  "emit ev = (\<lambda>s. (s @ [ev], Inr ()))"

definition bind :: "'a run \<Rightarrow> ('a \<Rightarrow> 'b run) \<Rightarrow> 'b run" where
  "bind m f = (\<lambda>s. case m s of (s', Inl e) \<Rightarrow> (s', Inl e) | (s', Inr x) \<Rightarrow> f x s')"

definition run_from :: "event list \<Rightarrow> 'a run \<Rightarrow> event list \<times> (exn + 'a)" where
  "run_from s m = m s"

text \<open>
  Reading a local variable. A variable assigned only in some branches is an option, and
  reading it while unassigned raises \<open>UnboundLocalError\<close>; the message kept here is the
  variable's name.
\<close>

definition local_var :: "string \<Rightarrow> 'a option \<Rightarrow> 'a run" where
  "local_var name v =
     (case v of None \<Rightarrow> raise (Exn ''UnboundLocalError'' name) | Some x \<Rightarrow> return x)"

subsection \<open>Setup (lines 55 to 122)\<close>

text \<open>Lines 67 to 75, on \<open>architecture\<close>, \<open>color_mode\<close> and \<open>loss = args.loss.upper()\<close>.\<close>

definition check_input_arguments :: "string \<Rightarrow> string \<Rightarrow> string \<Rightarrow> unit run" where
  "check_input_arguments architecture color_mode loss =
     (if architecture = ''resnet'' \<and> color_mode = ''grayscale''
        then raise (Exn ''ValueError'' ''ResNet expects rgb images'')
      else if architecture = ''nasnet'' \<and> color_mode = ''grayscale''
        then raise (Exn ''ValueError'' ''NasNet expects rgb images'')
      else if loss = ''MSSIM'' \<and> color_mode = ''grayscale''
        then raise (Exn ''ValueError'' ''MSSIM works only with rgb images'')
      else if loss = ''SSIM'' \<and> color_mode = ''rgb''
        then raise (Exn ''ValueError'' ''SSIM works only with grayscale images'')
      else return ())"

text \<open>
  Lines 77 to 85: \<open>channels\<close>, \<open>resmaps_mode\<close> and \<open>metrics\<close>, all three assigned in the
  same branch and all three left unbound when \<open>color_mode\<close> is neither word.
\<close>

definition set_channels :: "string \<Rightarrow> (int \<times> string \<times> objective list) option" where
  "set_channels color_mode =
     (if color_mode = ''grayscale''
        then Some (1, ''SSIM'', [Module_attr ''custom_metrics'' ''ssim_metric''])
      else if color_mode = ''rgb''
        then Some (3, ''MSSIM'', [Module_attr ''custom_metrics'' ''mssim_metric''])
      else None)"

definition channels_of :: "(int \<times> string \<times> objective list) option \<Rightarrow> int option" where
  "channels_of v = map_option fst v"

definition resmaps_mode_of :: "(int \<times> string \<times> objective list) option \<Rightarrow> string option" where
  "resmaps_mode_of v = map_option (fst \<circ> snd) v"

definition metrics_of ::
  "(int \<times> string \<times> objective list) option \<Rightarrow> objective list option" where
  "metrics_of v = map_option (snd \<circ> snd) v"

text \<open>
  Lines 87 to 97. The result is the local \<open>model\<close>, unbound for an architecture outside
  the four names.
\<close>

definition build_model :: "string \<Rightarrow> int option \<Rightarrow> model option run" where
  "build_model architecture channels =
     (if architecture = ''mvtec''
        then bind (local_var ''channels'' channels) (\<lambda>c.
             bind (emit (Build_model (Mvtec c))) (\<lambda>_. return (Some (Mvtec c))))
      else if architecture = ''mvtec2''
        then bind (local_var ''channels'' channels) (\<lambda>c.
             bind (emit (Build_model (Mvtec_2 c))) (\<lambda>_. return (Some (Mvtec_2 c))))
      else if architecture = ''resnet''
        then bind (emit (Build_model Resnet)) (\<lambda>_. return (Some Resnet))
      else if architecture = ''nasnet''
        then raise (Exn ''Exception'' ''Nasnet ist not yet implemented.'')
      else return None)"

text \<open>Lines 99 to 107: the local \<open>loss_function\<close>, from the uppercased \<open>loss\<close>.\<close>

definition set_loss_function :: "string \<Rightarrow> objective option" where
  "set_loss_function loss =
     (if loss = ''SSIM'' then Some (Module_attr ''loss_functions'' ''ssim_loss'')
      else if loss = ''MSSIM'' then Some (Module_attr ''loss_functions'' ''mssim_loss'')
      else if loss = ''L2'' then Some (Module_attr ''loss_functions'' ''l2_loss'')
      else if loss = ''MSE'' then Some (Str ''mean_squared_error'')
      else None)"

text \<open>An objective taken from the module \<open>loss_functions\<close>.\<close>

definition loss_functions_entry :: "objective \<Rightarrow> bool" where
  "loss_functions_entry f =
     (case f of Module_attr m _ \<Rightarrow> m = ''loss_functions'' | Str _ \<Rightarrow> False)"

subsection \<open>The surroundings of a run\<close>

text \<open>
  What a run reads from outside: the working directory, the clock (already formatted by
  \<open>strftime\<close>), the directories that exist, the image files Keras finds for the two
  subsets, the state of the shuffled validation iterator when line 335 asks it for a
  batch (the file names in the order of its index array, and its batch index), the pixel
  data an iterator loads from a file, what \<open>float(input(...))\<close> yields (the number typed, or the
  exception for text that is no number), and the model's predictions.

  \<open>calculate_resmaps\<close> is the function of \<open>modules.resmaps\<close>, which is not part of the
  sources at hand; it is taken as a parameter.
\<close>

record env =
  env_cwd :: string
  env_now :: string
  env_isdir :: "string \<Rightarrow> bool"
  env_training_filenames :: "string list"
  env_validation_filenames :: "string list"
  env_shuffled_validation :: "string list"
  env_batch_index :: nat
  env_image_data :: "generator \<Rightarrow> string \<Rightarrow> rat list"
  env_typed_max_lr :: "exn + rat"
  env_predict :: "model \<Rightarrow> tensor \<Rightarrow> tensor"
  calculate_resmaps :: "tensor \<Rightarrow> tensor \<Rightarrow> string \<Rightarrow> tensor"

subsection \<open>Paths and numerals\<close>

text \<open>\<open>os.path.join\<close> of \<open>posixpath\<close>: a component that starts with the separator restarts the path.\<close>

definition join2 :: "string \<Rightarrow> string \<Rightarrow> string" where
  "join2 path b =
     (if (case b of [] \<Rightarrow> False | c # _ \<Rightarrow> c = CHR ''/'') then b
      else if path = [] \<or> last path = CHR ''/'' then path @ b
      else path @ ''/'' @ b)"

definition path_join :: "string \<Rightarrow> string list \<Rightarrow> string" where
  "path_join a p = foldl join2 a p"

text \<open>The decimal numeral that \<open>"{}".format\<close> prints for an integer.\<close>

fun str_nat :: "nat \<Rightarrow> string" where
  "str_nat n =
     (if n < 10 then [char_of (48 + n)] else str_nat (n div 10) @ [char_of (48 + n mod 10)])"

declare str_nat.simps [simp del]

definition str_int :: "int \<Rightarrow> string" where
  "str_int i = (if i < 0 then ''-'' @ str_nat (nat (- i)) else str_nat (nat i))"

text \<open>
  \<open>if not os.path.isdir(d): os.makedirs(d)\<close>. The three directories that \<open>main\<close>
  tests are created by nothing else in a run, so the test is answered by the file system
  the run starts in.
\<close>

definition ensure_dir :: "env \<Rightarrow> string \<Rightarrow> unit run" where
  "ensure_dir env d = (if \<not> env_isdir env d then emit (Makedirs d) else return ())"

text \<open>Lines 109 to 122: \<open>save_dir\<close>, \<open>model_path\<close> and \<open>log_dir\<close>.\<close>

definition make_directories ::
  "env \<Rightarrow> string \<Rightarrow> string \<Rightarrow> string \<Rightarrow> int \<Rightarrow> (string \<times> string \<times> string) run" where
  "make_directories env directory architecture loss batch_size =
     (let now = env_now env;
          save_dir = path_join (env_cwd env)
                       [''saved_models'', directory, architecture, loss, now]
      in bind (ensure_dir env save_dir) (\<lambda>_.
         let model_name = ''CAE_'' @ architecture @ ''_b'' @ str_int batch_size;
             model_path = path_join save_dir [model_name @ ''.h5''];
             log_dir = path_join save_dir [''logs'']
         in bind (ensure_dir env log_dir) (\<lambda>_. return (save_dir, model_path, log_dir))))"

subsection \<open>Preprocessing (lines 140 to 218)\<close>

text \<open>
  Lines 142 to 157: \<open>rescale\<close>, \<open>shape\<close>, \<open>preprocessing_function\<close> and
  \<open>preprocessing\<close>, unbound for an architecture outside the four names.
\<close>

definition preprocessing_setup ::
  "string \<Rightarrow> (rat option \<times> (nat \<times> nat) \<times> string option \<times> string option) option" where
  "preprocessing_setup architecture =
     (if architecture \<in> set [''mvtec'', ''mvtec2'']
        then Some (Some (1 / 255), (256, 256), None, None)
      else if architecture = ''resnet''
        then Some (None, (299, 299),
               Some ''keras.applications.inception_resnet_v2.preprocess_input'',
               Some ''keras.applications.inception_resnet_v2.preprocess_input'')
      else if architecture = ''nasnet''
        then Some (None, (224, 224),
               Some ''keras.applications.nasnet.preprocess_input'',
               Some ''keras.applications.inception_resnet_v2.preprocess_input'')
      else None)"

text \<open>\<open>datagen.flow_from_directory(...)\<close>: the iterator, recorded in the trace.\<close>

definition flow_from_directory ::
  "bool \<Rightarrow> rat option \<Rightarrow> string option \<Rightarrow> string \<Rightarrow> nat \<times> nat \<Rightarrow> string \<Rightarrow> int \<Rightarrow>
   string \<Rightarrow> bool \<Rightarrow> generator run" where
  "flow_from_directory aug rescale preprocessing_function dir shape color_mode batch_size
     sub shuf =
     (let g = \<lparr>augmenting = aug, rescale_by = rescale,
                preprocess_with = preprocessing_function, from_directory = dir,
                target_size = shape, gen_color_mode = color_mode,
                gen_batch_size = batch_size, subset = sub, shuffle = shuf\<rparr>
      in bind (emit (Flow_from_directory g)) (\<lambda>_. return g))"

text \<open>
  Lines 159 to 212: the two \<open>ImageDataGenerator\<close>s read \<open>rescale\<close> and then
  \<open>preprocessing_function\<close>; the two iterators follow.
\<close>

definition data_generators ::
  "(rat option \<times> (nat \<times> nat) \<times> string option \<times> string option) option \<Rightarrow> string \<Rightarrow>
   string \<Rightarrow> int \<Rightarrow> (generator \<times> generator) run" where
  "data_generators pre train_data_dir color_mode batch_size =
     bind (local_var ''rescale'' pre) (\<lambda>(rescale, shape, preprocessing_function, preprocessing).
     bind (flow_from_directory True rescale preprocessing_function train_data_dir shape
             color_mode batch_size ''training'' True) (\<lambda>train_generator.
     bind (flow_from_directory False rescale preprocessing_function train_data_dir shape
             color_mode batch_size ''validation'' True) (\<lambda>validation_generator.
     return (train_generator, validation_generator))))"

text \<open>The attributes \<open>filenames\<close> and \<open>samples\<close> of an iterator.\<close>

definition filenames :: "env \<Rightarrow> generator \<Rightarrow> string list" where
  "filenames env g =
     (if subset g = ''training'' then env_training_filenames env
      else env_validation_filenames env)"

definition samples :: "env \<Rightarrow> generator \<Rightarrow> nat" where
  "samples env g = length (filenames env g)"

text \<open>Line 218: \<open>epochs = nb_training_images_aug // train_generator.samples\<close>.\<close>

definition calculate_epochs :: "int \<Rightarrow> nat \<Rightarrow> int run" where
  "calculate_epochs nb_training_images_aug n =
     (if n = 0 then raise (Exn ''ZeroDivisionError'' ''integer division or modulo by zero'')
      else return (nb_training_images_aug div int n))"

subsection \<open>Training (lines 220 to 323)\<close>

text \<open>
  Lines 222 to 238. The call \<open>model.compile(loss=loss_function, optimizer=optimizer,
  metrics=metrics)\<close> reads \<open>model\<close>, \<open>loss_function\<close> and \<open>metrics\<close> in this order; the
  optimizer is always Adam with learning rate \<open>1e-7\<close>.
\<close>

definition compile_model ::
  "model option \<Rightarrow> objective option \<Rightarrow> objective list option \<Rightarrow> generator \<Rightarrow> generator \<Rightarrow>
   int \<Rightarrow> model run" where
  "compile_model model loss_function metrics train_generator validation_generator batch_size =
     bind (local_var ''model'' model) (\<lambda>m.
     bind (local_var ''loss_function'' loss_function) (\<lambda>lf.
     bind (local_var ''metrics'' metrics) (\<lambda>ms.
     bind (emit (Compile m lf ms)) (\<lambda>_.
     bind (emit (Get_learner m train_generator validation_generator batch_size)) (\<lambda>_.
     return m)))))"

text \<open>
  Lines 240 to 261: the only assignment of \<open>max_lr\<close> is inside the branch
  \<open>args.lr_find > 0\<close>.
\<close>

definition find_learning_rate :: "env \<Rightarrow> int \<Rightarrow> string \<Rightarrow> rat option run" where
  "find_learning_rate env lr_find_arg save_dir =
     (if lr_find_arg > 0
        then bind (emit Lr_find) (\<lambda>_.
             bind (emit Lr_plot) (\<lambda>_.
             bind (emit (Savefig (path_join save_dir [''lr_find_plot.png'']))) (\<lambda>_.
             bind (emit (Input_prompt ''Enter max learning rate: '')) (\<lambda>_.
             bind (case env_typed_max_lr env of Inl e \<Rightarrow> raise e | Inr x \<Rightarrow> return x)
               (\<lambda>max_lr.
             bind (emit Reset_weights) (\<lambda>_.
             return (Some max_lr)))))))
      else return None)"

text \<open>Lines 263 to 273: \<open>learner.fit_onecycle(lr=max_lr, epochs=epochs, ...)\<close>.\<close>

definition fit_onecycle :: "rat option \<Rightarrow> int \<Rightarrow> unit run" where
  "fit_onecycle max_lr epochs =
     bind (local_var ''max_lr'' max_lr) (\<lambda>lr. emit (Fit_onecycle lr epochs))"

text \<open>Lines 276 to 323: the model, the two plots and \<open>setup.json\<close>.\<close>

definition save_results ::
  "env \<Rightarrow> args \<Rightarrow> model \<Rightarrow> string \<Rightarrow> string \<Rightarrow> generator \<Rightarrow> generator \<Rightarrow>
   (rat option \<times> (nat \<times> nat) \<times> string option \<times> string option) option \<Rightarrow> int \<Rightarrow> string \<Rightarrow>
   int option \<Rightarrow> unit run" where
  "save_results env args model model_path save_dir train_generator validation_generator pre
     epochs loss channels =
     bind (emit (Save_model model model_path)) (\<lambda>_.
     bind (emit (Plot ''loss'')) (\<lambda>_.
     bind (emit (Savefig (path_join save_dir [''loss_plot.png'']))) (\<lambda>_.
     bind (emit (Plot ''lr'')) (\<lambda>_.
     bind (emit (Savefig (path_join save_dir [''lr_plot.png'']))) (\<lambda>_.
     bind (local_var ''rescale'' pre) (\<lambda>(rescale, shape, preprocessing_function, preprocessing).
     bind (local_var ''channels'' channels) (\<lambda>c.
     emit (Json_dump (path_join save_dir [''setup.json''])
       \<lparr>setup_directory = arg_directory args,
        setup_nb_training_images = samples env train_generator,
        setup_nb_validation_images = samples env validation_generator,
        setup_rescale = rescale,
        setup_shape = shape,
        setup_preprocessing = preprocessing,
        setup_architecture = arg_architecture args,
        setup_nb_training_images_aug = arg_nb_images args,
        setup_epochs = epochs,
        setup_batch_size = arg_batch args,
        setup_loss = loss,
        setup_color_mode = arg_color args,
        setup_channels = c,
        setup_validation_split = 1 / 10,
        setup_tag = arg_tag args\<rparr>))))))))"

subsection \<open>Inspection (lines 325 to 347)\<close>

text \<open>
  The Keras iterator. An image loaded in color mode \<open>rgba\<close> has four channels, in
  \<open>rgb\<close> three, and one otherwise. A call of \<open>next\<close> takes the slice of the index
  array that starts at \<open>(batch_index * batch_size) % n\<close> and is \<open>batch_size\<close> long (the
  slice is written for a positive batch size); a shuffled iterator walks the index array
  it drew, an unshuffled one the files in their order. The only iterator that \<open>main\<close>
  asks for a batch is \<open>validation_generator\<close>, whose drawn order and batch index the
  surroundings give.
\<close>

definition image_channels :: "string \<Rightarrow> nat" where
  "image_channels color_mode =
     (if color_mode = ''rgba'' then 4 else if color_mode = ''rgb'' then 3 else 1)"

definition index_array :: "env \<Rightarrow> generator \<Rightarrow> string list" where
  "index_array env g = (if shuffle g then env_shuffled_validation env else filenames env g)"

definition next_files :: "env \<Rightarrow> generator \<Rightarrow> string list" where
  "next_files env g =
     (let n = samples env g;
          bs = nat (gen_batch_size g);
          current_index = (if n = 0 then 0 else (env_batch_index env * bs) mod n)
      in take bs (drop current_index (index_array env g)))"

definition next_batch :: "env \<Rightarrow> generator \<Rightarrow> tensor" where
  "next_batch env g =
     \<lparr>array_shape = [length (next_files env g), fst (target_size g), snd (target_size g),
                     image_channels (gen_color_mode g)],
      array_data = concat (map (env_image_data env g) (next_files env g))\<rparr>"

text \<open>
  \<open>tf.image.rgb_to_grayscale\<close> contracts the last axis, which must have length three,
  with the weights \<open>[0.2989, 0.5870, 0.1140]\<close> and keeps that axis with length one.
\<close>

fun luma :: "rat list \<Rightarrow> rat list" where
  "luma (r # g # b # rest) = (2989 / 10000 * r + 5870 / 10000 * g + 1140 / 10000 * b) # luma rest"
| "luma _ = []"

definition rgb_to_grayscale :: "tensor \<Rightarrow> tensor run" where
  "rgb_to_grayscale images =
     bind (emit (Rgb_to_grayscale images)) (\<lambda>_.
     if array_shape images \<noteq> [] \<and> last (array_shape images) = 3
       then return \<lparr>array_shape = butlast (array_shape images) @ [1],
                    array_data = luma (array_data images)\<rparr>
     else raise (Exn ''InvalidArgumentError'' ''Matrix size-incompatible''))"

text \<open>
  Lines 325 to 347. \<open>inspection_generator\<close> is created with the whole validation set as
  one unshuffled batch; the batch that is predicted on and compared is the next one of
  \<open>validation_generator\<close>.
\<close>

definition inspect ::
  "env \<Rightarrow> model \<Rightarrow> generator \<Rightarrow>
   (rat option \<times> (nat \<times> nat) \<times> string option \<times> string option) option \<Rightarrow> string \<Rightarrow> string \<Rightarrow>
   string option \<Rightarrow> string \<Rightarrow> unit run" where
  "inspect env model validation_generator pre train_data_dir color_mode resmaps_mode save_dir =
     bind (local_var ''shape'' pre) (\<lambda>(rescale, shape, preprocessing_function, preprocessing).
     bind (flow_from_directory False rescale preprocessing_function train_data_dir shape
             color_mode (int (samples env validation_generator)) ''validation'' False)
       (\<lambda>inspection_generator.
     bind (emit (Next_batch validation_generator)) (\<lambda>_.
     let imgs_val_input = next_batch env validation_generator;
         filenames = filenames env validation_generator
     in
     bind (emit (Predict model imgs_val_input)) (\<lambda>_.
     let imgs_val_pred = env_predict env model imgs_val_input in
     bind (local_var ''resmaps_mode'' resmaps_mode) (\<lambda>mode.
     bind (emit (Calculate_resmaps imgs_val_input imgs_val_pred mode)) (\<lambda>_.
     bind (if color_mode = ''rgb''
             then rgb_to_grayscale (calculate_resmaps env imgs_val_input imgs_val_pred mode)
           else return (calculate_resmaps env imgs_val_input imgs_val_pred mode))
       (\<lambda>resmaps_val.
     let inspection_dir = path_join save_dir [''inspection''] in
     bind (ensure_dir env inspection_dir) (\<lambda>_.
     bind (emit (Save_images inspection_dir imgs_val_pred filenames color_mode ''pred'')) (\<lambda>_.
     emit (Save_images inspection_dir resmaps_val filenames color_mode ''resmap''))))))))))"

subsection \<open>\<open>main\<close>\<close>

definition main :: "env \<Rightarrow> args \<Rightarrow> event list \<times> (exn + unit)" where
  "main env args =
     run_from []
     (let directory = arg_directory args;
          train_data_dir = path_join directory [''train''];
          nb_training_images_aug = arg_nb_images args;
          batch_size = arg_batch args;
          color_mode = arg_color args;
          loss = upper (arg_loss args);
          architecture = arg_architecture args
      in
      bind (check_input_arguments architecture color_mode loss) (\<lambda>_.
      let channels = channels_of (set_channels color_mode);
          resmaps_mode = resmaps_mode_of (set_channels color_mode);
          metrics = metrics_of (set_channels color_mode)
      in
      bind (build_model architecture channels) (\<lambda>model.
      let loss_function = set_loss_function loss in
      bind (make_directories env directory architecture loss batch_size)
        (\<lambda>(save_dir, model_path, log_dir).
      let pre = preprocessing_setup architecture in
      bind (data_generators pre train_data_dir color_mode batch_size)
        (\<lambda>(train_generator, validation_generator).
      bind (calculate_epochs nb_training_images_aug (samples env train_generator)) (\<lambda>epochs.
      bind (compile_model model loss_function metrics train_generator validation_generator
              batch_size) (\<lambda>m.
      bind (find_learning_rate env (arg_lr_find args) save_dir) (\<lambda>max_lr.
      bind (fit_onecycle max_lr epochs) (\<lambda>_.
      bind (save_results env args m model_path save_dir train_generator validation_generator
              pre epochs loss channels) (\<lambda>_.
      inspect env m validation_generator pre train_data_dir color_mode resmaps_mode
        save_dir))))))))))"

subsection \<open>Statements about runs\<close>

text \<open>
  \<open>emits m P Q\<close>: whatever the trace before it, the step \<open>m\<close> only appends calls that
  satisfy \<open>P\<close>, and a value it returns satisfies \<open>Q\<close>.
\<close>

definition emits :: "'a run \<Rightarrow> (event \<Rightarrow> bool) \<Rightarrow> ('a \<Rightarrow> bool) \<Rightarrow> bool" where
  "emits m P Q =
     (\<forall>s. \<exists>evs. fst (m s) = s @ evs \<and> list_all P evs \<and>
        (case snd (m s) of Inl e \<Rightarrow> True | Inr x \<Rightarrow> Q x))"

text \<open>
  \<open>stops m P e0\<close>: the step \<open>m\<close> always ends in an exception, and that exception is
  \<open>e0\<close> unless all the calls it appended satisfy \<open>P\<close>.
\<close>

definition stops :: "'a run \<Rightarrow> (event \<Rightarrow> bool) \<Rightarrow> exn \<Rightarrow> bool" where
  "stops m P e0 =
     (\<forall>s. \<exists>evs e. m s = (s @ evs, Inl e) \<and> (list_all P evs \<or> e = e0))"

text \<open>The calls made before the learning-rate finder and the training.\<close>

fun setup_event :: "event \<Rightarrow> bool" where
  "setup_event (Build_model m) = True"
| "setup_event (Makedirs d) = True"
| "setup_event (Flow_from_directory g) = shuffle g"
| "setup_event (Compile m f ms) = True"
| "setup_event (Get_learner m tg vg b) = True"
| "setup_event _ = False"

fun before_learner :: "event \<Rightarrow> bool" where
  "before_learner (Get_learner m tg vg b) = False"
| "before_learner _ = True"

text \<open>
  What every call in a trace of \<open>main env a\<close> satisfies: where its arguments come from,
  and, for the calls after the learner is wrapped, that the learning-rate finder was
  requested.
\<close>

fun main_event :: "env \<Rightarrow> args \<Rightarrow> event \<Rightarrow> bool" where
  "main_event env a (Build_model m) =
     (case m of
        Mvtec c \<Rightarrow> arg_architecture a = ''mvtec'' \<and>
                   channels_of (set_channels (arg_color a)) = Some c
      | Mvtec_2 c \<Rightarrow> arg_architecture a = ''mvtec2'' \<and>
                   channels_of (set_channels (arg_color a)) = Some c
      | Resnet \<Rightarrow> arg_architecture a = ''resnet'')"
| "main_event env a (Makedirs d) = True"
| "main_event env a (Flow_from_directory g) =
     (gen_color_mode g = arg_color a \<and> (\<not> shuffle g \<longrightarrow> 0 < arg_lr_find a))"
| "main_event env a (Compile m f ms) =
     (set_loss_function (upper (arg_loss a)) = Some f \<and>
      metrics_of (set_channels (arg_color a)) = Some ms)"
| "main_event env a (Get_learner m tg vg b) = True"
| "main_event env a (Fit_onecycle lr e) =
     (0 < arg_lr_find a \<and> env_typed_max_lr env = Inr lr)"
| "main_event env a (Json_dump p st) =
     (0 < arg_lr_find a \<and> channels_of (set_channels (arg_color a)) = Some (setup_channels st))"
| "main_event env a (Next_batch g) =
     (0 < arg_lr_find a \<and> gen_color_mode g = arg_color a \<and>
      gen_batch_size g = arg_batch a \<and> shuffle g)"
| "main_event env a (Calculate_resmaps x y mode) =
     (0 < arg_lr_find a \<and> resmaps_mode_of (set_channels (arg_color a)) = Some mode \<and>
      (\<exists>g. gen_color_mode g = arg_color a \<and> gen_batch_size g = arg_batch a \<and> shuffle g \<and>
           x = next_batch env g))"
| "main_event env a (Save_images d t fs c kind) =
     (0 < arg_lr_find a \<and>
      (kind = ''resmap'' \<longrightarrow>
         (\<exists>x y mode. resmaps_mode_of (set_channels (arg_color a)) = Some mode \<and>
            (if arg_color a = ''rgb''
             then last (array_shape (calculate_resmaps env x y mode)) = 3 \<and>
                  t = \<lparr>array_shape = butlast (array_shape (calculate_resmaps env x y mode)) @ [1],
                       array_data = luma (array_data (calculate_resmaps env x y mode))\<rparr>
             else t = calculate_resmaps env x y mode))))"
| "main_event env a _ = (0 < arg_lr_find a)"

text \<open>The inputs of the calls of \<open>calculate_resmaps\<close> in a trace, in order.\<close>

fun resmaps_inputs :: "event list \<Rightarrow> tensor list" where
  "resmaps_inputs [] = []"
| "resmaps_inputs (Calculate_resmaps x y mode # evs) = x # resmaps_inputs evs"
| "resmaps_inputs (ev # evs) = resmaps_inputs evs"

text \<open>The file lists handed to \<open>utils.save_images\<close> in a trace, in order.\<close>

fun saved_filenames :: "event list \<Rightarrow> string list list" where
  "saved_filenames [] = []"
| "saved_filenames (Save_images d t fs c kind # evs) = fs # saved_filenames evs"
| "saved_filenames (ev # evs) = saved_filenames evs"

text \<open>The class of the exception a run ends in, if it ends in one.\<close>

definition raised :: "event list \<times> (exn + unit) \<Rightarrow> string option" where
  "raised r = (case snd r of Inl e \<Rightarrow> Some (exn_class e) | Inr _ \<Rightarrow> None)"

text \<open>
  Two strings differ only in letter case: they have the same length and, position by
  position, the same character or the two cases of one ASCII letter.
\<close>

definition same_letter :: "char \<Rightarrow> char \<Rightarrow> bool" where
  "same_letter c d =
     (let m = (of_char c :: nat); n = (of_char d :: nat)
      in c = d \<or> (65 \<le> m \<and> m \<le> 90 \<and> n = m + 32) \<or> (65 \<le> n \<and> n \<le> 90 \<and> m = n + 32))"

definition differ_only_in_case :: "string \<Rightarrow> string \<Rightarrow> bool" where
  "differ_only_in_case s t = list_all2 same_letter s t"

text \<open>
  The arithmetic mean over the channel axis of a three-channel tensor's entries: what an
  aggregation \<open>by arithmetic mean across channels\<close> would compute.
\<close>

fun channel_mean :: "rat list \<Rightarrow> rat list" where
  "channel_mean (r # g # b # rest) = ((r + g + b) / 3) # channel_mean rest"
| "channel_mean _ = []"

subsection \<open>An example run\<close>

text \<open>
  The first command of the source's closing comment,
  \<open>train.py -d mvtec/capsule -a mvtec -b 12 -l ssim -c grayscale\<close>, here with batch size
  2 and the learning-rate finder switched on, in a directory with three training and
  five validation images. The images are blank, the model reproduces its input, and the
  parameter \<open>calculate_resmaps\<close> is the squared difference.
\<close>

definition capsule_env :: env where
  "capsule_env =
     \<lparr>env_cwd = ''/work'',
      env_now = ''01-01-2020_00-00-00'',
      env_isdir = (\<lambda>_. False),
      env_training_filenames = [''good/000.png'', ''good/001.png'', ''good/002.png''],
      env_validation_filenames =
        [''good/003.png'', ''good/004.png'', ''good/005.png'', ''good/006.png'',
         ''good/007.png''],
      env_shuffled_validation =
        [''good/006.png'', ''good/003.png'', ''good/007.png'', ''good/005.png'',
         ''good/004.png''],
      env_batch_index = 0,
      env_image_data =
        (\<lambda>g f. replicate
           (fst (target_size g) * snd (target_size g) * image_channels (gen_color_mode g)) 0),
      env_typed_max_lr = Inr (1 / 1000),
      env_predict = (\<lambda>m x. x),
      calculate_resmaps =
        (\<lambda>x y mode. \<lparr>array_shape = array_shape x,
                       array_data = map2 (\<lambda>u v. (u - v) * (u - v)) (array_data x) (array_data y)\<rparr>)\<rparr>"

definition capsule_args :: args where
  "capsule_args =
     \<lparr>arg_directory = ''mvtec/capsule'', arg_architecture = ''mvtec'', arg_nb_images = 10000,
      arg_batch = 2, arg_loss = ''ssim'', arg_color = ''grayscale'', arg_lr_find = 1,
      arg_tag = None\<rparr>"

text \<open>The validation iterator of that run, and of the same run on \<open>rgb\<close> images.\<close>

definition capsule_validation_generator :: "string \<Rightarrow> generator" where
  "capsule_validation_generator color_mode =
     \<lparr>augmenting = False, rescale_by = Some (1 / 255), preprocess_with = None,
      from_directory = path_join ''mvtec/capsule'' [''train''], target_size = (256, 256),
      gen_color_mode = color_mode, gen_batch_size = 2, subset = ''validation'',
      shuffle = True\<rparr>"

section \<open>Properties\<close>

subsection \<open>Rules for runs\<close>

lemma bind_return: "bind (return x) f = f x"
  by (simp add: bind_def return_def)

lemma bind_raise: "bind (raise e) f = raise e"
  by (simp add: bind_def raise_def)

lemma local_var_None: "local_var n None = raise (Exn ''UnboundLocalError'' n)"
  by (simp add: local_var_def)

lemma local_var_Some: "local_var n (Some x) = return x"
  by (simp add: local_var_def)

lemma emits_return: "Q x \<Longrightarrow> emits (return x) P Q"
  by (simp add: emits_def return_def)

lemma emits_raise: "emits (raise e) P Q"
  by (simp add: emits_def raise_def)

lemma emits_emit: "P ev \<Longrightarrow> Q () \<Longrightarrow> emits (emit ev) P Q"
  by (simp add: emits_def emit_def)

lemma emits_bind:
  assumes m: "emits m P Q'" and f: "\<And>x. Q' x \<Longrightarrow> emits (f x) P Q"
  shows "emits (bind m f) P Q"
  unfolding emits_def
proof
  fix s
  from m obtain evs1 where 1: "fst (m s) = s @ evs1" "list_all P evs1"
    and q: "case snd (m s) of Inl e \<Rightarrow> True | Inr x \<Rightarrow> Q' x"
    unfolding emits_def by blast
  show "\<exists>evs. fst (bind m f s) = s @ evs \<and> list_all P evs \<and>
          (case snd (bind m f s) of Inl e \<Rightarrow> True | Inr x \<Rightarrow> Q x)"
  proof (cases "snd (m s)")
    case (Inl e)
    then have "bind m f s = (s @ evs1, Inl e)"
      using 1 by (cases "m s") (simp add: bind_def)
    then show ?thesis using 1 by simp
  next
    case (Inr x)
    then have b: "bind m f s = f x (s @ evs1)"
      using 1 by (cases "m s") (simp add: bind_def)
    from Inr q have "Q' x" by simp
    from f[OF this] obtain evs2 where 2: "fst (f x (s @ evs1)) = (s @ evs1) @ evs2"
      "list_all P evs2" "case snd (f x (s @ evs1)) of Inl e \<Rightarrow> True | Inr y \<Rightarrow> Q y"
      unfolding emits_def by blast
    show ?thesis
      by (rule exI[of _ "evs1 @ evs2"]) (use 1 2 b in simp)
  qed
qed

lemma emits_local_var: "(\<And>x. v = Some x \<Longrightarrow> Q x) \<Longrightarrow> emits (local_var n v) P Q"
  by (cases v) (simp_all add: local_var_def emits_return emits_raise)

lemma emits_weaken: "emits m P Q' \<Longrightarrow> (\<And>x. Q' x \<Longrightarrow> Q x) \<Longrightarrow> emits m P Q"
  unfolding emits_def by (fastforce split: sum.splits)

lemma emits_trace: "emits m P Q \<Longrightarrow> list_all P (fst (run_from [] m))"
  unfolding emits_def run_from_def by (metis append_Nil)

lemma emits_case_prod:
  "(\<And>a b. x = (a, b) \<Longrightarrow> emits (f a b) P Q) \<Longrightarrow> emits (case x of (a, b) \<Rightarrow> f a b) P Q"
  by (cases x) simp

lemma emits_bind_local_var:
  "(\<And>x. v = Some x \<Longrightarrow> emits (f x) P Q) \<Longrightarrow> emits (bind (local_var n v) f) P Q"
  by (rule emits_bind[where Q'="\<lambda>x. v = Some x"]) (simp_all add: emits_local_var)

lemma emits_bind_emit:
  "P ev \<Longrightarrow> emits (f ()) P Q \<Longrightarrow> emits (bind (emit ev) f) P Q"
  by (rule emits_bind[where Q'="\<lambda>_. True"]) (simp_all add: emits_emit)

lemma check_emits: "emits (check_input_arguments x y z) P (\<lambda>_. True)"
  by (simp add: check_input_arguments_def emits_return emits_raise)

lemma build_model_emits:
  "emits (build_model (arg_architecture a) (channels_of (set_channels (arg_color a))))
     (main_event env a) (\<lambda>_. True)"
  unfolding build_model_def
  by (auto intro!: emits_bind_local_var emits_bind_emit emits_return emits_raise)

lemma ensure_dir_emits: "emits (ensure_dir env d) (main_event env' a) (\<lambda>_. True)"
  by (simp add: ensure_dir_def emits_return emits_emit)

lemma make_directories_emits:
  "emits (make_directories env d ar l b) (main_event env' a) (\<lambda>_. True)"
  unfolding make_directories_def Let_def
  by (intro emits_bind[where Q'="\<lambda>_. True"] ensure_dir_emits emits_return TrueI)

lemma flow_emits:
  "cm = arg_color a \<Longrightarrow> (\<not> sh \<Longrightarrow> 0 < arg_lr_find a) \<Longrightarrow>
   emits (flow_from_directory aug r pf d shp cm b sb sh) (main_event env a)
     (\<lambda>g. gen_color_mode g = cm \<and> gen_batch_size g = b \<and> shuffle g = sh)"
  unfolding flow_from_directory_def Let_def
  by (auto intro!: emits_bind_emit emits_return)

lemma data_generators_emits:
  "emits (data_generators pre d (arg_color a) (arg_batch a)) (main_event env a)
     (\<lambda>(tg, vg). gen_color_mode vg = arg_color a \<and> gen_batch_size vg = arg_batch a \<and> shuffle vg)"
  unfolding data_generators_def
  apply (rule emits_bind_local_var)
  apply (intro emits_case_prod)
  apply (rule emits_bind[OF flow_emits]; simp?)
  apply (rule emits_bind[OF flow_emits]; simp?)
  apply (rule emits_return)
  apply simp
  done

lemma calculate_epochs_emits: "emits (calculate_epochs n k) P (\<lambda>_. True)"
  by (simp add: calculate_epochs_def emits_return emits_raise)

lemma compile_model_emits:
  "emits (compile_model (mo) (set_loss_function (upper (arg_loss a)))
       (metrics_of (set_channels (arg_color a))) tg vg b) (main_event env a) (\<lambda>_. True)"
  unfolding compile_model_def
  by (auto intro!: emits_bind_local_var emits_bind_emit emits_return)

lemma typed_emits:
  "emits (case env_typed_max_lr env of Inl e \<Rightarrow> raise e | Inr x \<Rightarrow> return x) P
     (\<lambda>lr. env_typed_max_lr env = Inr lr)"
  by (cases "env_typed_max_lr env") (simp_all add: emits_return emits_raise)

lemma find_learning_rate_emits:
  "emits (find_learning_rate env (arg_lr_find a) d) (main_event env a)
     (\<lambda>max_lr. \<forall>lr. max_lr = Some lr \<longrightarrow> 0 < arg_lr_find a \<and> env_typed_max_lr env = Inr lr)"
proof (cases "0 < arg_lr_find a")
  case True
  then show ?thesis
    unfolding find_learning_rate_def
    by (auto intro!: emits_bind_emit emits_bind[OF typed_emits] emits_return)
next
  case False
  then show ?thesis
    by (simp add: find_learning_rate_def emits_return)
qed

lemma fit_onecycle_emits:
  "\<forall>lr. max_lr = Some lr \<longrightarrow> 0 < arg_lr_find a \<and> env_typed_max_lr env = Inr lr \<Longrightarrow>
   emits (fit_onecycle max_lr e) (main_event env a) (\<lambda>_. 0 < arg_lr_find a)"
  unfolding fit_onecycle_def
  by (auto intro!: emits_bind_local_var emits_emit)

lemma save_results_emits:
  "0 < arg_lr_find a \<Longrightarrow>
   emits (save_results env a' m mp sd tg vg pre e l (channels_of (set_channels (arg_color a))))
     (main_event env a) (\<lambda>_. True)"
  unfolding save_results_def
  by (auto intro!: emits_bind_local_var emits_bind_emit emits_emit)

lemma rgb_to_grayscale_emits:
  "0 < arg_lr_find a \<Longrightarrow>
   emits (rgb_to_grayscale r) (main_event env a)
     (\<lambda>t. last (array_shape r) = 3 \<and>
          t = \<lparr>array_shape = butlast (array_shape r) @ [1], array_data = luma (array_data r)\<rparr>)"
  unfolding rgb_to_grayscale_def
  by (auto intro!: emits_bind_emit emits_return emits_raise)

lemma resmaps_step_emits:
  assumes "0 < arg_lr_find a"
  shows "emits (if arg_color a = ''rgb'' then rgb_to_grayscale r else return r) (main_event env a)
     (\<lambda>t. if arg_color a = ''rgb''
          then last (array_shape r) = 3 \<and>
               t = \<lparr>array_shape = butlast (array_shape r) @ [1], array_data = luma (array_data r)\<rparr>
          else t = r)"
proof (cases "arg_color a = ''rgb''")
  case True
  then show ?thesis
    using rgb_to_grayscale_emits[OF assms, of r env] by simp
next
  case False
  then show ?thesis by (simp add: emits_return)
qed

lemma inspect_emits:
  assumes lr: "0 < arg_lr_find a" and vg: "gen_color_mode vg = arg_color a"
    "gen_batch_size vg = arg_batch a" "shuffle vg"
  shows "emits (inspect env m vg pre d (arg_color a) (resmaps_mode_of (set_channels (arg_color a))) sd)
     (main_event env a) (\<lambda>_. True)"
  unfolding inspect_def Let_def
  apply (rule emits_bind_local_var)
  apply (intro emits_case_prod)
  apply (rule emits_bind[OF flow_emits]; (simp add: lr)?)
  apply (rule emits_bind_emit, simp add: lr vg)
  apply (rule emits_bind_emit, simp add: lr)
  apply (rule emits_bind_local_var)
  apply (rule emits_bind_emit)
   apply (use lr vg in auto)[1]
  apply (rule emits_bind[OF resmaps_step_emits[OF lr]])
  apply (rule emits_bind[OF ensure_dir_emits])
  apply (rule emits_bind_emit, simp add: lr)
  apply (rule emits_emit)
   apply (cases "arg_color a = ''rgb''"; use lr in force)
  apply simp
  done

lemma main_events: "list_all (main_event env a) (fst (main env a))"
  unfolding main_def Let_def
  apply (rule emits_trace[where Q="\<lambda>_. True"])
  apply (rule emits_bind[OF check_emits])
  apply (rule emits_bind[OF build_model_emits])
  apply (rule emits_bind[OF make_directories_emits])
  apply (intro emits_case_prod)
  apply (rule emits_bind[OF data_generators_emits])
  apply (intro emits_case_prod)
  apply (rule emits_bind[OF calculate_epochs_emits])
  apply (rule emits_bind[OF compile_model_emits])
  apply (rule emits_bind[OF find_learning_rate_emits])
  apply (rule emits_bind[OF fit_onecycle_emits], assumption)
  apply (rule emits_bind[OF save_results_emits], assumption)
  apply (rule inspect_emits; simp)
  done

subsection \<open>Evaluating a run\<close>

lemmas phase_defs = check_input_arguments_def build_model_def make_directories_def ensure_dir_def
  data_generators_def flow_from_directory_def calculate_epochs_def compile_model_def
  find_learning_rate_def fit_onecycle_def save_results_def inspect_def rgb_to_grayscale_def

lemmas local_defs = set_channels_def channels_of_def resmaps_mode_of_def metrics_of_def
  set_loss_function_def preprocessing_setup_def samples_def filenames_def

lemma upper_words:
  "upper ''ssim'' = ''SSIM''" "upper ''mssim'' = ''MSSIM''" "upper ''l2'' = ''L2''"
  "upper ''mse'' = ''MSE''"
  by code_simp+

lemma bind_assoc: "bind (bind m f) g = bind m (\<lambda>x. bind (f x) g)"
  by (auto simp: bind_def fun_eq_iff split: prod.splits sum.splits)

lemma run_from_steps:
  "run_from s (return x) = (s, Inr x)"
  "run_from s (raise e) = (s, Inl e)"
  "run_from s (emit ev) = (s @ [ev], Inr ())"
  "run_from s (bind (emit ev) f) = run_from (s @ [ev]) (f ())"
  by (simp_all add: run_from_def return_def raise_def emit_def bind_def)

lemmas eval_run = bind_assoc bind_return bind_raise run_from_steps local_var_None
  local_var_Some

lemma capsule_env_fields:
  "env_cwd capsule_env = ''/work''"
  "env_now capsule_env = ''01-01-2020_00-00-00''"
  "env_isdir capsule_env = (\<lambda>_. False)"
  "env_training_filenames capsule_env = [''good/000.png'', ''good/001.png'', ''good/002.png'']"
  "env_validation_filenames capsule_env =
     [''good/003.png'', ''good/004.png'', ''good/005.png'', ''good/006.png'', ''good/007.png'']"
  "env_typed_max_lr capsule_env = Inr (1 / 1000)"
  "env_predict capsule_env = (\<lambda>m x. x)"
  by (simp_all add: capsule_env_def)

lemmas eval_main = main_def capsule_env_fields capsule_args_def Let_def upper_words eval_run
  phase_defs local_defs capsule_validation_generator_def

lemma main_event_of_trace: "ev \<in> set (fst (main env a)) \<Longrightarrow> main_event env a ev"
  using main_events[of env a] by (simp add: list_all_iff)

lemma main_config_error:
  "check_input_arguments (arg_architecture a) (arg_color a) (upper (arg_loss a)) = raise e \<Longrightarrow>
   main env a = ([], Inl e)"
  by (simp add: main_def Let_def bind_raise run_from_steps)

lemma capsule_gray_result: "snd (main capsule_env capsule_args) = Inr ()"
  by (simp add: eval_main)

lemma capsule_gray_resmaps:
  "resmaps_inputs (fst (main capsule_env capsule_args)) =
     [next_batch capsule_env (capsule_validation_generator ''grayscale'')]"
  by (simp add: eval_main)

lemma capsule_gray_compile:
  "Compile (Mvtec 1) (Module_attr ''loss_functions'' ''ssim_loss'')
     [Module_attr ''custom_metrics'' ''ssim_metric''] \<in> set (fst (main capsule_env capsule_args))"
  by (simp add: eval_main)

lemma capsule_gray_calls:
  "Build_model (Mvtec 1) \<in> set (fst (main capsule_env capsule_args))"
  "Calculate_resmaps (next_batch capsule_env (capsule_validation_generator ''grayscale''))
     (next_batch capsule_env (capsule_validation_generator ''grayscale'')) ''SSIM''
   \<in> set (fst (main capsule_env capsule_args))"
  by (simp_all add: eval_main)

lemma main_build_error:
  "check_input_arguments (arg_architecture a) (arg_color a) (upper (arg_loss a)) = return () \<Longrightarrow>
   build_model (arg_architecture a) (channels_of (set_channels (arg_color a))) = raise e \<Longrightarrow>
   main env a = ([], Inl e)"
  by (simp add: main_def Let_def bind_raise bind_return run_from_steps)

subsection \<open>The loss dispatch\<close>

text \<open>
  Claim C1 says that for each of the four values of \<open>loss\<close> the objective handed to the
  optimizer is one of the entries of the loss-function module. For \<open>mse\<close> line 107
  assigns the string \<open>"mean_squared_error"\<close>, the name of a Keras built-in, and not an
  attribute of \<open>loss_functions\<close>.
\<close>

theorem mse_objective_outside_loss_functions:
  "set_loss_function (upper ''mse'') = Some (Str ''mean_squared_error'') \<and>
   \<not> loss_functions_entry (Str ''mean_squared_error'')"
  by (simp add: upper_words set_loss_function_def loss_functions_entry_def)

text \<open>
  Claim C1, amended: \<open>ssim\<close>, \<open>mssim\<close> and \<open>l2\<close> select \<open>loss_functions.ssim_loss\<close>,
  \<open>loss_functions.mssim_loss\<close> and \<open>loss_functions.l2_loss\<close>; \<open>mse\<close> selects the
  Keras built-in named \<open>mean_squared_error\<close>; and the objective of every
  \<open>model.compile\<close> call of \<open>main\<close> is the one selected from the uppercased \<open>loss\<close>.
\<close>

theorem loss_dispatch:
  "set_loss_function (upper ''ssim'') = Some (Module_attr ''loss_functions'' ''ssim_loss'') \<and>
   set_loss_function (upper ''mssim'') = Some (Module_attr ''loss_functions'' ''mssim_loss'') \<and>
   set_loss_function (upper ''l2'') = Some (Module_attr ''loss_functions'' ''l2_loss'') \<and>
   set_loss_function (upper ''mse'') = Some (Str ''mean_squared_error'') \<and>
   loss_functions_entry (Module_attr ''loss_functions'' ''ssim_loss'') \<and>
   loss_functions_entry (Module_attr ''loss_functions'' ''mssim_loss'') \<and>
   loss_functions_entry (Module_attr ''loss_functions'' ''l2_loss'') \<and>
   (Compile m f ms \<in> set (fst (main env a)) \<longrightarrow>
      set_loss_function (upper (arg_loss a)) = Some f)"
proof -
  have "set_loss_function (upper (arg_loss a)) = Some f"
    if "Compile m f ms \<in> set (fst (main env a))"
    using main_event_of_trace[OF that] by simp
  then show ?thesis
    by (simp add: upper_words set_loss_function_def loss_functions_entry_def)
qed

text \<open>The example run compiles its model with \<open>loss_functions.ssim_loss\<close>.\<close>

theorem loss_dispatch_witness:
  "Compile (Mvtec 1) (Module_attr ''loss_functions'' ''ssim_loss'')
     [Module_attr ''custom_metrics'' ''ssim_metric''] \<in> set (fst (main capsule_env capsule_args)) \<and>
   set_loss_function (upper (arg_loss capsule_args)) =
     Some (Module_attr ''loss_functions'' ''ssim_loss'')"
  using loss_dispatch[of "Mvtec 1" "Module_attr ''loss_functions'' ''ssim_loss''"
      "[Module_attr ''custom_metrics'' ''ssim_metric'']" capsule_env capsule_args]
    capsule_gray_compile
  by blast

subsection \<open>Color mode, channels and resmaps mode\<close>

text \<open>
  Claim C3: color mode \<open>grayscale\<close> selects one channel and resmaps mode \<open>SSIM\<close>, color
  mode \<open>rgb\<close> selects three channels and resmaps mode \<open>MSSIM\<close>; in every run the model
  built by \<open>mvtec\<close> or \<open>mvtec_2\<close> gets that channel count and \<open>calculate_resmaps\<close> is
  called with that mode.
\<close>

theorem resmaps_mode_tied_to_color_mode:
  "set_channels ''grayscale'' =
     Some (1, ''SSIM'', [Module_attr ''custom_metrics'' ''ssim_metric'']) \<and>
   set_channels ''rgb'' =
     Some (3, ''MSSIM'', [Module_attr ''custom_metrics'' ''mssim_metric'']) \<and>
   (Build_model (Mvtec c) \<in> set (fst (main env a)) \<or>
    Build_model (Mvtec_2 c) \<in> set (fst (main env a)) \<longrightarrow>
      arg_color a = ''grayscale'' \<and> c = 1 \<or> arg_color a = ''rgb'' \<and> c = 3) \<and>
   (Calculate_resmaps x y mode \<in> set (fst (main env a)) \<longrightarrow>
      arg_color a = ''grayscale'' \<and> mode = ''SSIM'' \<or> arg_color a = ''rgb'' \<and> mode = ''MSSIM'')"
proof -
  have 1: "arg_color a = ''grayscale'' \<and> c = 1 \<or> arg_color a = ''rgb'' \<and> c = 3"
    if "Build_model (Mvtec c) \<in> set (fst (main env a)) \<or>
        Build_model (Mvtec_2 c) \<in> set (fst (main env a))"
    using that main_event_of_trace[of "Build_model (Mvtec c)" env a]
      main_event_of_trace[of "Build_model (Mvtec_2 c)" env a]
    by (auto simp: set_channels_def channels_of_def split: if_splits)
  have 2: "arg_color a = ''grayscale'' \<and> mode = ''SSIM'' \<or> arg_color a = ''rgb'' \<and> mode = ''MSSIM''"
    if "Calculate_resmaps x y mode \<in> set (fst (main env a))"
    using main_event_of_trace[OF that]
    by (auto simp: set_channels_def resmaps_mode_of_def split: if_splits)
  show ?thesis
    using 1 2 by (simp add: set_channels_def)
qed

text \<open>The example run builds \<open>mvtec\<close> with one channel and computes resmaps in mode \<open>SSIM\<close>.\<close>

theorem resmaps_mode_tied_to_color_mode_witness:
  "(Build_model (Mvtec 1) \<in> set (fst (main capsule_env capsule_args)) \<or>
    Build_model (Mvtec_2 1) \<in> set (fst (main capsule_env capsule_args))) \<and>
   Calculate_resmaps (next_batch capsule_env (capsule_validation_generator ''grayscale''))
     (next_batch capsule_env (capsule_validation_generator ''grayscale'')) ''SSIM''
     \<in> set (fst (main capsule_env capsule_args)) \<and>
   arg_color capsule_args = ''grayscale''"
  using resmaps_mode_tied_to_color_mode[of 1 capsule_env capsule_args
      "next_batch capsule_env (capsule_validation_generator ''grayscale'')"
      "next_batch capsule_env (capsule_validation_generator ''grayscale'')" "''SSIM''"]
    capsule_gray_calls
  by (simp add: capsule_args_def)

subsection \<open>Configuration errors\<close>

text \<open>
  Claim C5 names the exception raised for loss \<open>ssim\<close> on \<open>rgb\<close> images
  \<open>ChannelMismatchError\<close>. Line 75 raises the built-in \<open>ValueError\<close>.
\<close>

theorem ssim_on_rgb_raises_value_error:
  "raised (main capsule_env (capsule_args\<lparr>arg_color := ''rgb''\<rparr>)) = Some ''ValueError'' \<and>
   raised (main capsule_env (capsule_args\<lparr>arg_color := ''rgb''\<rparr>)) \<noteq> Some ''ChannelMismatchError''"
  by (simp add: raised_def capsule_args_def upper_words check_input_arguments_def
      main_config_error[where e = "Exn ''ValueError'' ''SSIM works only with grayscale images''"])

text \<open>
  Claim C5, amended: loss \<open>ssim\<close> with color mode \<open>rgb\<close> raises \<open>ValueError\<close> with the
  message of line 75 before anything else happens; loss \<open>mssim\<close> with color mode
  \<open>grayscale\<close> raises \<open>ValueError\<close> too, with the message of line 73 unless the
  architecture is \<open>resnet\<close> or \<open>nasnet\<close>, whose own check (lines 69 and 71) comes first.
\<close>

theorem loss_color_mismatch_raises_value_error:
  "(upper (arg_loss a) = ''SSIM'' \<and> arg_color a = ''rgb'' \<longrightarrow>
      main env a = ([], Inl (Exn ''ValueError'' ''SSIM works only with grayscale images''))) \<and>
   (upper (arg_loss a) = ''MSSIM'' \<and> arg_color a = ''grayscale'' \<longrightarrow>
      main env a =
        ([], Inl (Exn ''ValueError''
           (if arg_architecture a = ''resnet'' then ''ResNet expects rgb images''
            else if arg_architecture a = ''nasnet'' then ''NasNet expects rgb images''
            else ''MSSIM works only with rgb images''))))"
  by (auto intro!: main_config_error simp: check_input_arguments_def)

text \<open>The example arguments with color mode \<open>rgb\<close>, and with loss \<open>mssim\<close>.\<close>

theorem loss_color_mismatch_raises_value_error_witness:
  "upper (arg_loss (capsule_args\<lparr>arg_color := ''rgb''\<rparr>)) = ''SSIM'' \<and>
   main capsule_env (capsule_args\<lparr>arg_color := ''rgb''\<rparr>) =
     ([], Inl (Exn ''ValueError'' ''SSIM works only with grayscale images'')) \<and>
   upper (arg_loss (capsule_args\<lparr>arg_loss := ''mssim''\<rparr>)) = ''MSSIM'' \<and>
   main capsule_env (capsule_args\<lparr>arg_loss := ''mssim''\<rparr>) =
     ([], Inl (Exn ''ValueError'' ''MSSIM works only with rgb images''))"
  using loss_color_mismatch_raises_value_error[of "capsule_args\<lparr>arg_color := ''rgb''\<rparr>" capsule_env]
    loss_color_mismatch_raises_value_error[of "capsule_args\<lparr>arg_loss := ''mssim''\<rparr>" capsule_env]
  by (simp add: capsule_args_def upper_words)

text \<open>
  Claim C6: when one of the four checks of lines 68 to 75 fails, \<open>main\<close> ends in that
  \<open>ValueError\<close>, which it hands to its caller, and its trace is empty: no model has been
  built and no directory created.
\<close>

theorem configuration_error_before_any_effect:
  assumes "arg_architecture a = ''resnet'' \<and> arg_color a = ''grayscale'' \<or>
           arg_architecture a = ''nasnet'' \<and> arg_color a = ''grayscale'' \<or>
           upper (arg_loss a) = ''MSSIM'' \<and> arg_color a = ''grayscale'' \<or>
           upper (arg_loss a) = ''SSIM'' \<and> arg_color a = ''rgb''"
  shows "\<exists>msg. main env a = ([], Inl (Exn ''ValueError'' msg))"
proof -
  have "\<exists>msg. check_input_arguments (arg_architecture a) (arg_color a) (upper (arg_loss a)) =
          raise (Exn ''ValueError'' msg)"
    using assms by (auto simp: check_input_arguments_def)
  then show ?thesis
    using main_config_error by blast
qed

text \<open>The example arguments with architecture \<open>resnet\<close> on grayscale images.\<close>

theorem configuration_error_before_any_effect_witness:
  "arg_architecture (capsule_args\<lparr>arg_architecture := ''resnet''\<rparr>) = ''resnet'' \<and>
   arg_color (capsule_args\<lparr>arg_architecture := ''resnet''\<rparr>) = ''grayscale'' \<and>
   (\<exists>msg. main capsule_env (capsule_args\<lparr>arg_architecture := ''resnet''\<rparr>) =
      ([], Inl (Exn ''ValueError'' msg)))"
  using configuration_error_before_any_effect
    [of "capsule_args\<lparr>arg_architecture := ''resnet''\<rparr>" capsule_env]
  by (simp add: capsule_args_def)

subsection \<open>Architecture \<open>nasnet\<close>\<close>

text \<open>
  Claim C9 says that with \<open>nasnet\<close> on \<open>rgb\<close> images \<open>main\<close> unconditionally raises
  \<open>Nasnet ist not yet implemented.\<close> With loss \<open>ssim\<close> the check of line 74 comes first.
\<close>

theorem nasnet_rgb_ssim_raises_value_error:
  "main capsule_env (capsule_args\<lparr>arg_architecture := ''nasnet'', arg_color := ''rgb''\<rparr>) =
     ([], Inl (Exn ''ValueError'' ''SSIM works only with grayscale images'')) \<and>
   ''SSIM works only with grayscale images'' \<noteq> ''Nasnet ist not yet implemented.''"
  by (simp add: capsule_args_def upper_words check_input_arguments_def
      main_config_error[where e = "Exn ''ValueError'' ''SSIM works only with grayscale images''"])

text \<open>
  Claim C9, amended: with architecture \<open>nasnet\<close>, \<open>main\<close> always raises before it has
  done anything: on \<open>grayscale\<close> images the \<open>ValueError\<close> of line 71, on \<open>rgb\<close> images
  with loss \<open>ssim\<close> the \<open>ValueError\<close> of line 75, and otherwise the \<open>Exception\<close> of
  line 95.
\<close>

theorem nasnet_always_raises:
  assumes "arg_architecture a = ''nasnet''"
  shows "main env a =
     ([], Inl (if arg_color a = ''grayscale'' then Exn ''ValueError'' ''NasNet expects rgb images''
               else if upper (arg_loss a) = ''SSIM'' \<and> arg_color a = ''rgb''
                 then Exn ''ValueError'' ''SSIM works only with grayscale images''
               else Exn ''Exception'' ''Nasnet ist not yet implemented.''))"
proof (cases "arg_color a = ''grayscale'' \<or> upper (arg_loss a) = ''SSIM'' \<and> arg_color a = ''rgb''")
  case True
  then show ?thesis
    using assms by (auto intro!: main_config_error simp: check_input_arguments_def)
next
  case False
  then have "check_input_arguments (arg_architecture a) (arg_color a) (upper (arg_loss a)) =
      return ()"
    using assms by (auto simp: check_input_arguments_def)
  moreover have "build_model (arg_architecture a) (channels_of (set_channels (arg_color a))) =
      raise (Exn ''Exception'' ''Nasnet ist not yet implemented.'')"
    using assms by (simp add: build_model_def)
  ultimately show ?thesis
    using False main_build_error by auto
qed

text \<open>The example arguments with \<open>nasnet\<close>, \<open>rgb\<close> and \<open>l2\<close>.\<close>

theorem nasnet_always_raises_witness:
  "arg_architecture (capsule_args\<lparr>arg_architecture := ''nasnet'', arg_color := ''rgb'',
      arg_loss := ''l2''\<rparr>) = ''nasnet'' \<and>
   main capsule_env (capsule_args\<lparr>arg_architecture := ''nasnet'', arg_color := ''rgb'',
      arg_loss := ''l2''\<rparr>) =
     ([], Inl (Exn ''Exception'' ''Nasnet ist not yet implemented.''))"
  using nasnet_always_raises[of "capsule_args\<lparr>arg_architecture := ''nasnet'', arg_color := ''rgb'',
      arg_loss := ''l2''\<rparr>" capsule_env]
  by (simp add: capsule_args_def upper_words)

subsection \<open>The call of \<open>calculate_resmaps\<close>\<close>

text \<open>
  Claim C10: whenever \<open>main\<close> calls \<open>calculate_resmaps\<close>, the mode is \<open>SSIM\<close> exactly
  when the tensor it receives has one channel, which is exactly when \<open>channels\<close> is 1,
  and \<open>MSSIM\<close> exactly when the tensor has three channels, which is exactly when
  \<open>channels\<close> is 3; there is no third mode.
\<close>

theorem resmaps_call_site_invariant:
  assumes "Calculate_resmaps x y mode \<in> set (fst (main env a))"
  shows "(mode = ''SSIM'' \<longleftrightarrow> last (array_shape x) = 1) \<and>
         (mode = ''MSSIM'' \<longleftrightarrow> last (array_shape x) = 3) \<and>
         (mode = ''SSIM'' \<longleftrightarrow> channels_of (set_channels (arg_color a)) = Some 1) \<and>
         (mode = ''MSSIM'' \<longleftrightarrow> channels_of (set_channels (arg_color a)) = Some 3) \<and>
         (mode = ''SSIM'' \<or> mode = ''MSSIM'')"
proof -
  from main_event_of_trace[OF assms] obtain g where
    mode: "resmaps_mode_of (set_channels (arg_color a)) = Some mode" and
    g: "gen_color_mode g = arg_color a" "x = next_batch env g"
    by auto
  have "last (array_shape x) = image_channels (arg_color a)"
    using g by (simp add: next_batch_def)
  then show ?thesis
    using mode
    by (auto simp: set_channels_def resmaps_mode_of_def channels_of_def image_channels_def
        split: if_splits)
qed

text \<open>The call of the example run.\<close>

theorem resmaps_call_site_invariant_witness:
  "Calculate_resmaps (next_batch capsule_env (capsule_validation_generator ''grayscale''))
     (next_batch capsule_env (capsule_validation_generator ''grayscale'')) ''SSIM''
     \<in> set (fst (main capsule_env capsule_args)) \<and>
   last (array_shape (next_batch capsule_env (capsule_validation_generator ''grayscale''))) = 1 \<and>
   channels_of (set_channels (arg_color capsule_args)) = Some 1"
  using resmaps_call_site_invariant[OF capsule_gray_calls(2)] capsule_gray_calls(2)
  by simp

subsection \<open>Runs without the learning-rate finder\<close>

lemma stops_raise: "stops (raise e) P e0"
  by (simp add: stops_def raise_def)

lemma stops_bind:
  assumes m: "emits m P Q'" and f: "\<And>x. Q' x \<Longrightarrow> stops (f x) P e0"
  shows "stops (bind m f) P e0"
  unfolding stops_def
proof
  fix s
  from m obtain evs1 where 1: "fst (m s) = s @ evs1" "list_all P evs1"
    and q: "case snd (m s) of Inl e \<Rightarrow> True | Inr x \<Rightarrow> Q' x"
    unfolding emits_def by blast
  show "\<exists>evs e. bind m f s = (s @ evs, Inl e) \<and> (list_all P evs \<or> e = e0)"
  proof (cases "snd (m s)")
    case (Inl e)
    then have "bind m f s = (s @ evs1, Inl e)"
      using 1 by (cases "m s") (simp add: bind_def)
    then show ?thesis using 1 by blast
  next
    case (Inr x)
    then have b: "bind m f s = f x (s @ evs1)"
      using 1 by (cases "m s") (simp add: bind_def)
    from Inr q have "Q' x" by simp
    from f[OF this] obtain evs2 e where 2: "f x (s @ evs1) = ((s @ evs1) @ evs2, Inl e)"
      "list_all P evs2 \<or> e = e0"
      unfolding stops_def by blast
    show ?thesis
      by (rule exI[of _ "evs1 @ evs2"], rule exI[of _ e]) (use 1 2 b in auto)
  qed
qed

lemma stops_case_prod:
  "(\<And>a b. x = (a, b) \<Longrightarrow> stops (f a b) P e0) \<Longrightarrow> stops (case x of (a, b) \<Rightarrow> f a b) P e0"
  by (cases x) simp

lemma stops_result:
  assumes "stops m P e0"
  shows "\<exists>e. snd (run_from [] m) = Inl e \<and> (list_all P (fst (run_from [] m)) \<or> e = e0)"
proof -
  from assms obtain evs e where "m [] = ([] @ evs, Inl e)" "list_all P evs \<or> e = e0"
    unfolding stops_def by blast
  then show ?thesis by (auto simp: run_from_def)
qed

lemma setup_quiet:
  "emits (check_input_arguments x y z) before_learner (\<lambda>_. True)"
  "emits (build_model ar ch) before_learner (\<lambda>_. True)"
  "emits (make_directories env d ar l b) before_learner (\<lambda>_. True)"
  "emits (data_generators pre d c b) before_learner (\<lambda>_. True)"
  "emits (calculate_epochs n k) before_learner (\<lambda>_. True)"
proof -
  show "emits (check_input_arguments x y z) before_learner (\<lambda>_. True)"
    by (rule check_emits)
  show "emits (build_model ar ch) before_learner (\<lambda>_. True)"
    unfolding build_model_def
    by (auto intro!: emits_bind_local_var emits_bind_emit emits_return emits_raise)
  show "emits (make_directories env d ar l b) before_learner (\<lambda>_. True)"
    unfolding make_directories_def ensure_dir_def Let_def
    by (auto intro!: emits_bind[where Q'="\<lambda>_. True"] emits_emit emits_return)
  show "emits (data_generators pre d c b) before_learner (\<lambda>_. True)"
    unfolding data_generators_def flow_from_directory_def Let_def
    by (auto intro!: emits_bind_local_var emits_case_prod emits_bind_emit emits_return
        simp: bind_assoc bind_return)
  show "emits (calculate_epochs n k) before_learner (\<lambda>_. True)"
    by (rule calculate_epochs_emits)
qed

lemma compile_then_unbound:
  "stops (bind (compile_model mo lf me tg vg b) (\<lambda>m. raise e0)) before_learner e0"
  by (cases mo; cases lf; cases me)
    (auto simp: stops_def compile_model_def local_var_def bind_raise bind_return raise_def
      bind_def emit_def return_def)

lemma no_lr_find:
  "arg_lr_find a \<le> 0 \<Longrightarrow>
   bind (find_learning_rate env (arg_lr_find a) sd) (\<lambda>max_lr. bind (fit_onecycle max_lr e) f) =
     raise (Exn ''UnboundLocalError'' ''max_lr'')"
  by (simp add: find_learning_rate_def fit_onecycle_def bind_return bind_raise local_var_None)

lemma main_stops:
  assumes "arg_lr_find a \<le> 0"
  shows "\<exists>e. snd (main env a) = Inl e \<and>
           (list_all before_learner (fst (main env a)) \<or> e = Exn ''UnboundLocalError'' ''max_lr'')"
  unfolding main_def Let_def no_lr_find[OF assms]
  apply (rule stops_result)
  apply (rule stops_bind[OF setup_quiet(1)])
  apply (rule stops_bind[OF setup_quiet(2)])
  apply (rule stops_bind[OF setup_quiet(3)])
  apply (intro stops_case_prod)
  apply (rule stops_bind[OF setup_quiet(4)])
  apply (intro stops_case_prod)
  apply (rule stops_bind[OF setup_quiet(5)])
  apply (rule compile_then_unbound)
  done

lemma setup_event_without_lr_find:
  "main_event env a ev \<Longrightarrow> arg_lr_find a \<le> 0 \<Longrightarrow> setup_event ev"
  by (cases ev) auto

lemma capsule_no_lr_find:
  "Get_learner (Mvtec 1)
     ((capsule_validation_generator ''grayscale'')\<lparr>augmenting := True, subset := ''training''\<rparr>)
     (capsule_validation_generator ''grayscale'') 2
   \<in> set (fst (main capsule_env (capsule_args\<lparr>arg_lr_find := 0\<rparr>)))"
  by (simp add: eval_main)

text \<open>
  Claim C8 says that every invocation with \<open>lr_find \<le> 0\<close> raises an unbound-variable
  error. An invocation that an earlier statement stops raises that statement's
  exception instead: \<open>resnet\<close> on grayscale images raises the \<open>ValueError\<close> of line 69.
\<close>

theorem lr_find_zero_resnet_grayscale_raises_value_error:
  "arg_lr_find (capsule_args\<lparr>arg_architecture := ''resnet'', arg_lr_find := 0\<rparr>) \<le> 0 \<and>
   main capsule_env (capsule_args\<lparr>arg_architecture := ''resnet'', arg_lr_find := 0\<rparr>) =
     ([], Inl (Exn ''ValueError'' ''ResNet expects rgb images'')) \<and>
   ''ValueError'' \<noteq> ''UnboundLocalError''"
  by (simp add: capsule_args_def check_input_arguments_def
      main_config_error[where e = "Exn ''ValueError'' ''ResNet expects rgb images''"])

text \<open>
  Claim C8, amended: with \<open>lr_find \<le> 0\<close>, \<open>max_lr\<close> is never assigned, \<open>main\<close> always
  ends in an exception and only makes calls of the setup (no learning-rate finder, no
  training, no saving, no inspection); a run that got as far as wrapping the learner
  ends in the unbound-variable error for \<open>max_lr\<close>, and a run that an earlier statement
  stopped ends in that statement's exception. Only runs with \<open>lr_find > 0\<close> complete.
\<close>

theorem no_training_without_lr_find:
  "(arg_lr_find a \<le> 0 \<longrightarrow>
      (\<exists>e. snd (main env a) = Inl e) \<and>
      (\<forall>ev \<in> set (fst (main env a)). setup_event ev) \<and>
      (Get_learner m tg vg b \<in> set (fst (main env a)) \<longrightarrow>
         snd (main env a) = Inl (Exn ''UnboundLocalError'' ''max_lr''))) \<and>
   (snd (main env a') = Inr () \<longrightarrow> 0 < arg_lr_find a')"
proof -
  have 1: "(\<exists>e. snd (main env a) = Inl e) \<and>
      (\<forall>ev \<in> set (fst (main env a)). setup_event ev) \<and>
      (Get_learner m tg vg b \<in> set (fst (main env a)) \<longrightarrow>
         snd (main env a) = Inl (Exn ''UnboundLocalError'' ''max_lr''))"
    if le: "arg_lr_find a \<le> 0"
  proof -
    from main_stops[OF le, of env] obtain e where e: "snd (main env a) = Inl e"
      "list_all before_learner (fst (main env a)) \<or> e = Exn ''UnboundLocalError'' ''max_lr''"
      by blast
    have "e = Exn ''UnboundLocalError'' ''max_lr''"
      if "Get_learner m tg vg b \<in> set (fst (main env a))"
      using e(2) that by (auto simp: list_all_iff)
    moreover have "\<forall>ev \<in> set (fst (main env a)). setup_event ev"
      using main_event_of_trace setup_event_without_lr_find le by blast
    ultimately show ?thesis using e(1) by simp
  qed
  have 2: "0 < arg_lr_find a'" if "snd (main env a') = Inr ()"
  proof (rule ccontr)
    assume "\<not> 0 < arg_lr_find a'"
    then have "arg_lr_find a' \<le> 0" by simp
    from main_stops[OF this, of env] that show False by auto
  qed
  show ?thesis using 1 2 by blast
qed

text \<open>The example run without the learning-rate finder, and the example run.\<close>

theorem no_training_without_lr_find_witness:
  "arg_lr_find (capsule_args\<lparr>arg_lr_find := 0\<rparr>) \<le> 0 \<and>
   Get_learner (Mvtec 1)
     ((capsule_validation_generator ''grayscale'')\<lparr>augmenting := True, subset := ''training''\<rparr>)
     (capsule_validation_generator ''grayscale'') 2
     \<in> set (fst (main capsule_env (capsule_args\<lparr>arg_lr_find := 0\<rparr>))) \<and>
   snd (main capsule_env (capsule_args\<lparr>arg_lr_find := 0\<rparr>)) =
     Inl (Exn ''UnboundLocalError'' ''max_lr'') \<and>
   snd (main capsule_env capsule_args) = Inr () \<and> 0 < arg_lr_find capsule_args"
  using no_training_without_lr_find[of "capsule_args\<lparr>arg_lr_find := 0\<rparr>" capsule_env "Mvtec 1"
      "(capsule_validation_generator ''grayscale'')\<lparr>augmenting := True, subset := ''training''\<rparr>"
      "capsule_validation_generator ''grayscale''" 2 capsule_args]
    capsule_no_lr_find capsule_gray_result
  by (simp add: capsule_args_def)

subsection \<open>Letter case of the loss\<close>
lemma same_letter_upper: "same_letter c d \<Longrightarrow> upper_char c = upper_char d"
  by (auto simp: same_letter_def upper_char_def Let_def)

lemma differ_only_in_case_upper: "differ_only_in_case s t \<Longrightarrow> upper s = upper t"
  unfolding differ_only_in_case_def upper_def
  by (induction s t rule: list_all2_induct) (simp_all add: same_letter_upper)

lemma main_loss_upper:
  "upper s = upper t \<Longrightarrow> main env (a\<lparr>arg_loss := s\<rparr>) = main env (a\<lparr>arg_loss := t\<rparr>)"
  by (simp add: main_def save_results_def)

text \<open>
  Claim C7: \<open>main\<close> reads \<open>args.loss\<close> only through \<open>args.loss.upper()\<close>, so two
  invocations whose \<open>loss\<close> arguments differ only in letter case run identically: the
  same result and the same trace, and in particular the same loss function, the same
  outcome of the checks and the same save directory.
\<close>

theorem loss_case_insensitive:
  assumes "differ_only_in_case s t"
  shows "main env (a\<lparr>arg_loss := s\<rparr>) = main env (a\<lparr>arg_loss := t\<rparr>) \<and>
         set_loss_function (upper s) = set_loss_function (upper t) \<and>
         check_input_arguments architecture color_mode (upper s) =
           check_input_arguments architecture color_mode (upper t) \<and>
         make_directories env directory architecture (upper s) batch_size =
           make_directories env directory architecture (upper t) batch_size"
proof -
  have u: "upper s = upper t"
    by (rule differ_only_in_case_upper[OF assms])
  have "main env (a\<lparr>arg_loss := s\<rparr>) = main env (a\<lparr>arg_loss := t\<rparr>)"
    by (rule main_loss_upper[OF u])
  then show ?thesis
    by (simp only: u simp_thms)
qed

lemma mixed_case_ssim: "differ_only_in_case ''Ssim'' ''sSIM''"
  by (simp add: differ_only_in_case_def same_letter_def)

text \<open>The example run with loss \<open>Ssim\<close> and with loss \<open>sSIM\<close>.\<close>

theorem loss_case_insensitive_witness:
  "differ_only_in_case ''Ssim'' ''sSIM'' \<and>
   main capsule_env (capsule_args\<lparr>arg_loss := ''Ssim''\<rparr>) =
     main capsule_env (capsule_args\<lparr>arg_loss := ''sSIM''\<rparr>) \<and>
   set_loss_function (upper ''Ssim'') = set_loss_function (upper ''sSIM'')"
  using loss_case_insensitive[OF mixed_case_ssim, of capsule_env capsule_args] mixed_case_ssim
  by blast

subsection \<open>From channel maps to one grayscale map\<close>

lemma length_luma: "length (luma xs) = length xs div 3"
  by (induction xs rule: luma.induct) simp_all

lemma rgb_to_grayscale_result:
  "array_shape r = [n, h, w, 3] \<Longrightarrow>
   snd (run_from s (rgb_to_grayscale r)) =
     Inr \<lparr>array_shape = [n, h, w, 1], array_data = luma (array_data r)\<rparr>"
  by (simp add: rgb_to_grayscale_def run_from_steps)

lemma next_batch_shape:
  "array_shape (next_batch env g) =
     [length (next_files env g), fst (target_size g), snd (target_size g),
      image_channels (gen_color_mode g)]"
  by (simp add: next_batch_def)

lemma capsule_resmaps_shape:
  "array_shape (calculate_resmaps capsule_env x y mode) = array_shape x"
  by (simp add: capsule_env_def)

lemma capsule_rgb_saved:
  "Save_images
     (path_join (path_join ''/work'' [''saved_models'', ''mvtec/capsule'', ''mvtec'', ''MSSIM'',
        ''01-01-2020_00-00-00'']) [''inspection''])
     \<lparr>array_shape =
        butlast (array_shape (calculate_resmaps capsule_env
          (next_batch capsule_env (capsule_validation_generator ''rgb''))
          (next_batch capsule_env (capsule_validation_generator ''rgb'')) ''MSSIM'')) @ [1],
      array_data =
        luma (array_data (calculate_resmaps capsule_env
          (next_batch capsule_env (capsule_validation_generator ''rgb''))
          (next_batch capsule_env (capsule_validation_generator ''rgb'')) ''MSSIM''))\<rparr>
     (env_validation_filenames capsule_env) ''rgb'' ''resmap''
   \<in> set (fst (main capsule_env (capsule_args\<lparr>arg_color := ''rgb'', arg_loss := ''mssim''\<rparr>)))"
  by (simp add: eval_main next_batch_shape capsule_resmaps_shape image_channels_def)

text \<open>
  Claim C4 says that the channel maps are aggregated by their arithmetic mean. Lines 340
  and 341 aggregate with \<open>tf.image.rgb_to_grayscale\<close>, a weighted sum: a pixel that is
  1 in the first channel and 0 in the other two becomes 0.2989, and its mean is 1/3.
\<close>

theorem red_pixel_luma_is_not_channel_mean:
  "snd (run_from [] (rgb_to_grayscale \<lparr>array_shape = [1, 1, 1, 3], array_data = [1, 0, 0]\<rparr>)) =
     Inr \<lparr>array_shape = [1, 1, 1, 1], array_data = [2989 / 10000]\<rparr> \<and>
   channel_mean [1, 0, 0] = [1 / 3] \<and>
   [2989 / 10000] \<noteq> channel_mean [1, 0, 0]"
  by (simp add: rgb_to_grayscale_def run_from_steps)

text \<open>
  Claim C4, amended: on \<open>rgb\<close> runs the three-channel residual maps returned by
  \<open>calculate_resmaps\<close> are turned into one channel by \<open>tf.image.rgb_to_grayscale\<close>,
  the weighted sum \<open>0.2989 R + 0.5870 G + 0.1140 B\<close> of the channel values; the result
  has the batch size, height and width of what \<open>calculate_resmaps\<close> returned and one
  channel, and it is what \<open>save_images\<close> receives as the resmap. On other runs the
  maps are saved as \<open>calculate_resmaps\<close> returned them.
\<close>

theorem resmap_grayscale_conversion:
  "(array_shape r = [n, h, w, 3] \<longrightarrow>
      snd (run_from s (rgb_to_grayscale r)) =
        Inr \<lparr>array_shape = [n, h, w, 1], array_data = luma (array_data r)\<rparr>) \<and>
   luma [red, green, blue] =
     [2989 / 10000 * red + 5870 / 10000 * green + 1140 / 10000 * blue] \<and>
   length (luma xs) = length xs div 3 \<and>
   (Save_images d t fs c ''resmap'' \<in> set (fst (main env a)) \<longrightarrow>
      (\<exists>x y mode.
         if arg_color a = ''rgb''
         then last (array_shape (calculate_resmaps env x y mode)) = 3 \<and>
              t = \<lparr>array_shape = butlast (array_shape (calculate_resmaps env x y mode)) @ [1],
                   array_data = luma (array_data (calculate_resmaps env x y mode))\<rparr>
         else t = calculate_resmaps env x y mode))"
proof -
  have "\<exists>x y mode.
         if arg_color a = ''rgb''
         then last (array_shape (calculate_resmaps env x y mode)) = 3 \<and>
              t = \<lparr>array_shape = butlast (array_shape (calculate_resmaps env x y mode)) @ [1],
                   array_data = luma (array_data (calculate_resmaps env x y mode))\<rparr>
         else t = calculate_resmaps env x y mode"
    if "Save_images d t fs c ''resmap'' \<in> set (fst (main env a))"
  proof -
    from main_event_of_trace[OF that] obtain x y mode where
      "if arg_color a = ''rgb''
         then last (array_shape (calculate_resmaps env x y mode)) = 3 \<and>
              t = \<lparr>array_shape = butlast (array_shape (calculate_resmaps env x y mode)) @ [1],
                   array_data = luma (array_data (calculate_resmaps env x y mode))\<rparr>
         else t = calculate_resmaps env x y mode"
      by auto
    then show ?thesis by blast
  qed
  moreover have "luma [red, green, blue] =
     [2989 / 10000 * red + 5870 / 10000 * green + 1140 / 10000 * blue]"
    by simp
  ultimately show ?thesis
    using rgb_to_grayscale_result[of r n h w s] length_luma[of xs] by blast
qed

text \<open>A tensor of two pixels, and the resmap saved by the example run on \<open>rgb\<close> images.\<close>

theorem resmap_grayscale_conversion_witness:
  "snd (run_from [] (rgb_to_grayscale
      \<lparr>array_shape = [1, 1, 2, 3], array_data = [1, 0, 0, 1 / 2, 1 / 2, 1 / 2]\<rparr>)) =
     Inr \<lparr>array_shape = [1, 1, 2, 1], array_data = [2989 / 10000, 9999 / 20000]\<rparr> \<and>
   Save_images
     (path_join (path_join ''/work'' [''saved_models'', ''mvtec/capsule'', ''mvtec'', ''MSSIM'',
        ''01-01-2020_00-00-00'']) [''inspection''])
     \<lparr>array_shape =
        butlast (array_shape (calculate_resmaps capsule_env
          (next_batch capsule_env (capsule_validation_generator ''rgb''))
          (next_batch capsule_env (capsule_validation_generator ''rgb'')) ''MSSIM'')) @ [1],
      array_data =
        luma (array_data (calculate_resmaps capsule_env
          (next_batch capsule_env (capsule_validation_generator ''rgb''))
          (next_batch capsule_env (capsule_validation_generator ''rgb'')) ''MSSIM''))\<rparr>
     (env_validation_filenames capsule_env) ''rgb'' ''resmap''
   \<in> set (fst (main capsule_env (capsule_args\<lparr>arg_color := ''rgb'', arg_loss := ''mssim''\<rparr>))) \<and>
   (\<exists>x y mode.
      last (array_shape (calculate_resmaps capsule_env x y mode)) = 3 \<and>
      \<lparr>array_shape =
        butlast (array_shape (calculate_resmaps capsule_env
          (next_batch capsule_env (capsule_validation_generator ''rgb''))
          (next_batch capsule_env (capsule_validation_generator ''rgb'')) ''MSSIM'')) @ [1],
      array_data =
        luma (array_data (calculate_resmaps capsule_env
          (next_batch capsule_env (capsule_validation_generator ''rgb''))
          (next_batch capsule_env (capsule_validation_generator ''rgb'')) ''MSSIM''))\<rparr> =
      \<lparr>array_shape = butlast (array_shape (calculate_resmaps capsule_env x y mode)) @ [1],
       array_data = luma (array_data (calculate_resmaps capsule_env x y mode))\<rparr>)"
  (is "?first \<and> ?saved \<and> ?origin")
proof -
  let ?r = "\<lparr>array_shape = [1, 1, 2, 3], array_data = [1, 0, 0, 1 / 2, 1 / 2, 1 / 2]\<rparr>"
  let ?a = "capsule_args\<lparr>arg_color := ''rgb'', arg_loss := ''mssim''\<rparr>"
  let ?d = "path_join (path_join ''/work'' [''saved_models'', ''mvtec/capsule'', ''mvtec'',
    ''MSSIM'', ''01-01-2020_00-00-00'']) [''inspection'']"
  let ?x = "next_batch capsule_env (capsule_validation_generator ''rgb'')"
  let ?t = "\<lparr>array_shape = butlast (array_shape (calculate_resmaps capsule_env ?x ?x ''MSSIM'')) @ [1],
      array_data = luma (array_data (calculate_resmaps capsule_env ?x ?x ''MSSIM''))\<rparr>"
  note inst = resmap_grayscale_conversion[of ?r 1 1 2 "[]" 0 0 0 "[]" ?d ?t
      "env_validation_filenames capsule_env" "''rgb''" capsule_env ?a]
  have rgb: "arg_color ?a = ''rgb''"
    by (simp add: capsule_args_def)
  have "array_shape ?r = [1, 1, 2, 3]"
    by simp
  with inst have "snd (run_from [] (rgb_to_grayscale ?r)) =
      Inr \<lparr>array_shape = [1, 1, 2, 1], array_data = luma (array_data ?r)\<rparr>"
    by blast
  then have 1: ?first
    by simp
  have 2: ?saved
    by (rule capsule_rgb_saved)
  with inst have "\<exists>x y mode.
         if arg_color ?a = ''rgb''
         then last (array_shape (calculate_resmaps capsule_env x y mode)) = 3 \<and>
              ?t = \<lparr>array_shape = butlast (array_shape (calculate_resmaps capsule_env x y mode)) @ [1],
                   array_data = luma (array_data (calculate_resmaps capsule_env x y mode))\<rparr>
         else ?t = calculate_resmaps capsule_env x y mode"
    by blast
  then have 3: ?origin
    by (simp only: rgb simp_thms if_True)
  from 1 2 3 show ?thesis by blast
qed

subsection \<open>The images that reach the residual-map computation\<close>

text \<open>The tensor handed to \<open>calculate_resmaps\<close> never holds more than one batch.\<close>

lemma resmaps_input_at_most_one_batch:
  assumes "Calculate_resmaps x y mode \<in> set (fst (main env a))"
  shows "\<exists>n h w c. array_shape x = [n, h, w, c] \<and> n \<le> nat (arg_batch a)"
proof -
  from main_event_of_trace[OF assms] obtain g where
    g: "gen_batch_size g = arg_batch a" "x = next_batch env g"
    by auto
  have "length (next_files env g) \<le> nat (arg_batch a)"
    using g(1) by (simp add: next_files_def Let_def)
  then show ?thesis
    using g(2) by (simp add: next_batch_shape)
qed

lemma capsule_next_files:
  "next_files capsule_env (capsule_validation_generator ''grayscale'') =
     [''good/006.png'', ''good/003.png'']"
  by (simp add: next_files_def index_array_def capsule_validation_generator_def capsule_env_def
      samples_def filenames_def)

lemma capsule_gray_saved:
  "saved_filenames (fst (main capsule_env capsule_args)) =
     [env_validation_filenames capsule_env, env_validation_filenames capsule_env]"
  by (simp add: eval_main)

text \<open>
  Claim C2 says that after training every validation image is fed to the residual-map
  computation, once. Line 326 builds \<open>inspection_generator\<close> for exactly that (the whole
  validation set as one unshuffled batch), but line 335 takes the next batch of
  \<open>validation_generator\<close> instead. In the example run, with five validation images and
  batch size 2, \<open>calculate_resmaps\<close> is called once, on two images, the first two of the
  shuffled order; \<open>save_images\<close> nevertheless receives all five file names, in
  directory order.
\<close>

theorem inspection_feeds_one_batch_of_validation_generator:
  "snd (main capsule_env capsule_args) = Inr () \<and>
   length (env_validation_filenames capsule_env) = 5 \<and>
   resmaps_inputs (fst (main capsule_env capsule_args)) =
     [next_batch capsule_env (capsule_validation_generator ''grayscale'')] \<and>
   array_shape (next_batch capsule_env (capsule_validation_generator ''grayscale'')) =
     [2, 256, 256, 1] \<and>
   next_files capsule_env (capsule_validation_generator ''grayscale'') =
     [''good/006.png'', ''good/003.png''] \<and>
   saved_filenames (fst (main capsule_env capsule_args)) =
     [[''good/003.png'', ''good/004.png'', ''good/005.png'', ''good/006.png'', ''good/007.png''],
      [''good/003.png'', ''good/004.png'', ''good/005.png'', ''good/006.png'', ''good/007.png'']]"
  using capsule_gray_result capsule_gray_resmaps capsule_next_files capsule_gray_saved
  by (simp add: next_batch_shape capsule_env_fields capsule_validation_generator_def
      image_channels_def)

end
